theory Spec2Isabelle
  imports Main
begin

section \<open>JavaScript values\<close>

text \<open>
  The values that reach \<^verbatim>\<open>requests.ts\<close> are decoded response bodies (axios hands over
  the JSON-decoded body, or the raw text when it is not JSON) and the results of
  \<^verbatim>\<open>JSON.parse\<close>: \<^verbatim>\<open>undefined\<close>, \<^verbatim>\<open>null\<close>, booleans, numbers, strings, arrays
  and plain objects. An object is the list of its own properties, first match first.

  A JavaScript number is an IEEE double. Nothing in the source computes with numbers; it
  only tests them for truth, compares a length with zero and prints them into a message.
  The type of numbers is therefore a parameter \<open>'n\<close>, and the operations on it are the
  fields of \<open>number_ops\<close>, which every function that may meet a number takes as its first
  argument.

  A string is the list of its bytes in UTF-8 (generalised to lone surrogates). The source
  tests strings for emptiness, searches for an ASCII substring, concatenates and parses
  them, all of which read the same on bytes as on UTF-16 code units.
\<close>

datatype 'n jsval =
    JUndefined
  | JNull
  | JBool bool
  | JNum 'n
  | JStr string
  | JArr "'n jsval list"
  | JObj "(string \<times> 'n jsval) list"

record 'n number_ops =
  num_of_literal :: "string \<Rightarrow> 'n"   \<comment> \<open>the double a JSON number literal denotes\<close>
  num_truthy :: "'n \<Rightarrow> bool"           \<comment> \<open>false for \<open>0\<close>, \<open>-0\<close> and \<open>NaN\<close>\<close>
  num_to_string :: "'n \<Rightarrow> string"      \<comment> \<open>\<^verbatim>\<open>Number.prototype.toString\<close>\<close>
  num_gt0 :: "'n \<Rightarrow> bool"              \<comment> \<open>\<^verbatim>\<open>n > 0\<close>\<close>
  string_gt0 :: "string \<Rightarrow> bool"      \<comment> \<open>\<^verbatim>\<open>Number(s) > 0\<close> for a string \<open>s\<close>\<close>

datatype exn = TypeError | SyntaxError

fun typeof :: "'n jsval \<Rightarrow> string" where
  "typeof JUndefined = ''undefined''"
| "typeof JNull = ''object''"
| "typeof (JBool b) = ''boolean''"
| "typeof (JNum n) = ''number''"
| "typeof (JStr s) = ''string''"
| "typeof (JArr xs) = ''object''"
| "typeof (JObj kvs) = ''object''"

text \<open>\<^verbatim>\<open>!!v\<close>: the truth value of \<open>v\<close>.\<close>

fun truthy :: "'n number_ops \<Rightarrow> 'n jsval \<Rightarrow> bool" where
  "truthy P JUndefined = False"
| "truthy P JNull = False"
| "truthy P (JBool b) = b"
| "truthy P (JNum n) = num_truthy P n"
| "truthy P (JStr s) = (s \<noteq> [])"
| "truthy P (JArr xs) = True"
| "truthy P (JObj kvs) = True"

fun nullish :: "'n jsval \<Rightarrow> bool" where
  "nullish JUndefined = True"
| "nullish JNull = True"
| "nullish v = False"

subsection \<open>Property access\<close>

text \<open>
  An array index is written \<open>0\<close> or as decimal digits with no leading zero.
\<close>

definition is_digit :: "char \<Rightarrow> bool" where
  "is_digit c = (c \<in> set ''0123456789'')"

definition digit_val :: "char \<Rightarrow> nat" where
  "digit_val c = of_char c - 48"

definition array_index :: "string \<Rightarrow> nat option" where
  "array_index k =
     (if k = ''0'' then Some 0
      else if k \<noteq> [] \<and> list_all is_digit k \<and> hd k \<noteq> CHR ''0''
        then Some (foldl (\<lambda>n c. 10 * n + digit_val c) 0 k)
      else None)"

text \<open>
  \<open>get_property v k\<close> reads \<^verbatim>\<open>v[k]\<close> on a value that is neither \<^verbatim>\<open>null\<close> nor
  \<^verbatim>\<open>undefined\<close>, for the names the source reads as data: \<open>error\<close>, \<open>data\<close>,
  \<open>graphqlErrors\<close>, \<open>message\<close> and the index \<open>0\<close>. None of them is inherited from a
  prototype, so the value is the own property, or \<^verbatim>\<open>undefined\<close>. (\<open>length\<close> and
  \<open>includes\<close>, which are inherited, have functions of their own below.) Indexing a string
  gives a one-character string; only its being a string matters to the source.
\<close>

fun get_property :: "'n jsval \<Rightarrow> string \<Rightarrow> 'n jsval" where
  "get_property (JObj kvs) k = (case map_of kvs k of Some v \<Rightarrow> v | None \<Rightarrow> JUndefined)"
| "get_property (JArr xs) k =
     (case array_index k of
        Some i \<Rightarrow> if i < length xs then xs ! i else JUndefined
      | None \<Rightarrow> JUndefined)"
| "get_property (JStr s) k =
     (case array_index k of
        Some i \<Rightarrow> if i < length s then JStr [s ! i] else JUndefined
      | None \<Rightarrow> JUndefined)"
| "get_property v k = JUndefined"

text \<open>\<^verbatim>\<open>v.k\<close> raises a TypeError on \<^verbatim>\<open>null\<close> and \<^verbatim>\<open>undefined\<close>; \<^verbatim>\<open>v?.k\<close> gives
  \<^verbatim>\<open>undefined\<close> there.\<close>

definition member :: "'n jsval \<Rightarrow> string \<Rightarrow> exn + 'n jsval" where
  "member v k = (if nullish v then Inl TypeError else Inr (get_property v k))"

definition opt_member :: "'n jsval \<Rightarrow> string \<Rightarrow> 'n jsval" where
  "opt_member v k = (if nullish v then JUndefined else get_property v k)"

text \<open>
  \<^verbatim>\<open>k in v\<close>, for the same names. On a primitive JavaScript raises a TypeError; the
  source applies \<^verbatim>\<open>in\<close> only behind \<^verbatim>\<open>typeof res === "object" && !!res\<close>, where \<open>v\<close> is
  an object or an array.
\<close>

fun js_in :: "string \<Rightarrow> 'n jsval \<Rightarrow> bool" where
  "js_in k (JObj kvs) = (k \<in> set (map fst kvs))"
| "js_in k (JArr xs) = (case array_index k of Some i \<Rightarrow> i < length xs | None \<Rightarrow> False)"
| "js_in k v = False"

section \<open>Conversions and inherited members\<close>

text \<open>
  \<^verbatim>\<open>String(v)\<close>, which \<^verbatim>\<open>+\<close> applies to a non-string operand of a string and
  \<^verbatim>\<open>JSON.parse\<close> to its argument; \<open>None\<close> is the TypeError of a value that cannot be
  converted. An array prints its elements in order separated by commas, \<^verbatim>\<open>null\<close> and
  \<^verbatim>\<open>undefined\<close> as nothing, and cannot be converted when one of its elements cannot.
  A plain object is converted by its \<^verbatim>\<open>toString\<close> method: the inherited one prints
  \<^verbatim>\<open>[object Object]\<close>; an own property \<open>toString\<close> of a decoded object is never a
  function, hides the inherited method, and leaves no method that gives a primitive
  (the inherited \<^verbatim>\<open>valueOf\<close> returns the object itself, an own \<open>valueOf\<close> is not a
  function either), so the conversion raises.
\<close>

fun join_with :: "string \<Rightarrow> string list \<Rightarrow> string" where
  "join_with sep [] = []"
| "join_with sep [x] = x"
| "join_with sep (x # y # r) = x @ sep @ join_with sep (y # r)"

fun to_string :: "'n number_ops \<Rightarrow> 'n jsval \<Rightarrow> string option" where
  "to_string P JUndefined = Some ''undefined''"
| "to_string P JNull = Some ''null''"
| "to_string P (JBool b) = Some (if b then ''true'' else ''false'')"
| "to_string P (JNum n) = Some (num_to_string P n)"
| "to_string P (JStr s) = Some s"
| "to_string P (JArr xs) =
     map_option (join_with '','')
       (those (map (\<lambda>x. if nullish x then Some [] else to_string P x) xs))"
| "to_string P (JObj kvs) =
     (if ''toString'' \<in> set (map fst kvs) then None else Some ''[object Object]'')"

text \<open>\<^verbatim>\<open>s + v\<close> for a string \<open>s\<close>: \<open>s\<close> followed by the string of \<open>v\<close>.\<close>

definition js_plus :: "'n number_ops \<Rightarrow> string \<Rightarrow> 'n jsval \<Rightarrow> exn + string" where
  "js_plus P s v = (case to_string P v of None \<Rightarrow> Inl TypeError | Some t \<Rightarrow> Inr (s @ t))"

text \<open>\<^verbatim>\<open>s.includes(n)\<close> on strings: \<open>n\<close> occurs in \<open>s\<close> as a substring.\<close>

primrec starts_with :: "string \<Rightarrow> string \<Rightarrow> bool" where
  "starts_with s [] = True"
| "starts_with s (n # ns) = (case s of [] \<Rightarrow> False | c # cs \<Rightarrow> c = n \<and> starts_with cs ns)"

primrec str_includes :: "string \<Rightarrow> string \<Rightarrow> bool" where
  "str_includes [] n = (n = [])"
| "str_includes (c # cs) n = (starts_with (c # cs) n \<or> str_includes cs n)"

text \<open>
  \<^verbatim>\<open>v.includes(n)\<close> for a string \<open>n\<close>. Strings and arrays inherit an \<^verbatim>\<open>includes\<close>
  method (an array holds \<open>n\<close> when one of its elements is that string). On every other
  value \<^verbatim>\<open>v.includes\<close> is not a function and the call raises a TypeError: \<open>None\<close>.
\<close>

fun method_includes :: "'n jsval \<Rightarrow> string \<Rightarrow> bool option" where
  "method_includes (JStr s) n = Some (str_includes s n)"
| "method_includes (JArr xs) n = Some (JStr n \<in> set xs)"
| "method_includes v n = None"

text \<open>
  \<^verbatim>\<open>v > 0\<close>: \<open>v\<close> is converted to a number, an array through its string, and the
  comparison raises when that conversion does. A plain object that can be converted
  gives \<^verbatim>\<open>[object Object]\<close>, which is not a number, and the comparison is false.
\<close>

fun gt0 :: "'n number_ops \<Rightarrow> 'n jsval \<Rightarrow> bool option" where
  "gt0 P JUndefined = Some False"
| "gt0 P JNull = Some False"
| "gt0 P (JBool b) = Some b"
| "gt0 P (JNum n) = Some (num_gt0 P n)"
| "gt0 P (JStr s) = Some (string_gt0 P s)"
| "gt0 P (JArr xs) = map_option (string_gt0 P) (to_string P (JArr xs))"
| "gt0 P (JObj kvs) = map_option (\<lambda>s. False) (to_string P (JObj kvs))"

text \<open>\<^verbatim>\<open>v.length > 0\<close> on a value that is neither \<^verbatim>\<open>null\<close> nor \<^verbatim>\<open>undefined\<close>: arrays
  and strings have a length, an object has the property it was given, numbers and
  booleans have none (and \<^verbatim>\<open>undefined > 0\<close> is false).\<close>

fun length_gt0 :: "'n number_ops \<Rightarrow> 'n jsval \<Rightarrow> bool option" where
  "length_gt0 P (JArr xs) = Some (xs \<noteq> [])"
| "length_gt0 P (JStr s) = Some (s \<noteq> [])"
| "length_gt0 P (JObj kvs) = gt0 P (get_property (JObj kvs) ''length'')"
| "length_gt0 P v = Some False"

section \<open>\<^verbatim>\<open>JSON.parse\<close>\<close>

text \<open>
  The JSON grammar of ECMA-404, as \<^verbatim>\<open>JSON.parse\<close> reads it: a lexer from characters to
  tokens, then a stack machine over the tokens. \<open>None\<close> is the SyntaxError. A string
  token is decoded (escapes resolved, \<^verbatim>\<open>\uXXXX\<close> pairs joined); a number token keeps its
  literal, which \<open>num_of_literal\<close> turns into a number. A repeated key keeps its first
  position and its last value.
\<close>

datatype token =
    TLBrace | TRBrace | TLBracket | TRBracket | TColon | TComma
  | TString string | TNumber string | TTrue | TFalse | TNull

text \<open>The four white space characters of JSON: space, tab, line feed, carriage return.\<close>

definition is_ws :: "char \<Rightarrow> bool" where
  "is_ws c = (c \<in> set [CHR '' '', CHR 0x09, CHR 0x0A, CHR 0x0D])"

text \<open>The four hexadecimal digits of a \<^verbatim>\<open>\uXXXX\<close> escape, as a number.\<close>

definition hex_val :: "char \<Rightarrow> nat option" where
  "hex_val c =
     (if is_digit c then Some (of_char c - 48)
      else if c \<in> set ''abcdef'' then Some (of_char c - 87)
      else if c \<in> set ''ABCDEF'' then Some (of_char c - 55)
      else None)"

fun hex4 :: "string \<Rightarrow> nat option" where
  "hex4 (a # b # c # d # r) =
     (case (hex_val a, hex_val b, hex_val c, hex_val d) of
        (Some w, Some x, Some y, Some z) \<Rightarrow> Some (((w * 16 + x) * 16 + y) * 16 + z)
      | _ \<Rightarrow> None)"
| "hex4 cs = None"

text \<open>
  What a string literal holds, piece by piece: a character written as it is or through a
  one-letter escape (\<open>Raw\<close>), or the code unit of a \<^verbatim>\<open>\uXXXX\<close> escape (\<open>Esc\<close>).
\<close>

datatype unit16 = Raw char | Esc nat

definition simple_escape :: "char \<Rightarrow> char option" where
  "simple_escape e =
     (if e = CHR 0x22 then Some (CHR 0x22)
      else if e = CHR 0x5C then Some (CHR 0x5C)
      else if e = CHR ''/'' then Some (CHR ''/'')
      else if e = CHR ''b'' then Some (CHR 0x08)
      else if e = CHR ''f'' then Some (CHR 0x0C)
      else if e = CHR ''n'' then Some (CHR 0x0A)
      else if e = CHR ''r'' then Some (CHR 0x0D)
      else if e = CHR ''t'' then Some (CHR 0x09)
      else None)"

definition and_then :: "'a \<Rightarrow> ('a list \<times> 'b) option \<Rightarrow> ('a list \<times> 'b) option" where
  "and_then x r = (case r of None \<Rightarrow> None | Some (xs, rest) \<Rightarrow> Some (x # xs, rest))"

text \<open>
  \<open>scan_string\<close> reads a string literal from after its opening quote to its closing
  quote and gives its pieces and the rest of the input. A control character (below
  \<open>0x20\<close>), an unknown escape or the end of the input is an error.
\<close>

fun scan_string :: "string \<Rightarrow> (unit16 list \<times> string) option" where
  "scan_string [] = None"
| "scan_string (c # cs) =
     (if c = CHR 0x22 then Some ([], cs)
      else if c = CHR 0x5C then
        (case cs of
           [] \<Rightarrow> None
         | e # r \<Rightarrow>
             if e = CHR ''u'' then
               (case hex4 r of
                  None \<Rightarrow> None
                | Some n \<Rightarrow> and_then (Esc n) (scan_string (drop 4 r)))
             else
               (case simple_escape e of
                  None \<Rightarrow> None
                | Some x \<Rightarrow> and_then (Raw x) (scan_string r)))
      else if (of_char c :: nat) < 32 then None
      else and_then (Raw c) (scan_string cs))"

text \<open>
  The bytes of a decoded string: a high surrogate escape followed by a low surrogate
  escape is one code point, every other escape a code point of its own.
\<close>

definition utf8 :: "nat \<Rightarrow> string" where
  "utf8 cp =
     (if cp < 0x80 then [char_of cp]
      else if cp < 0x800 then [char_of (0xC0 + cp div 64), char_of (0x80 + cp mod 64)]
      else if cp < 0x10000 then
        [char_of (0xE0 + cp div 4096), char_of (0x80 + cp div 64 mod 64),
         char_of (0x80 + cp mod 64)]
      else
        [char_of (0xF0 + cp div 262144), char_of (0x80 + cp div 4096 mod 64),
         char_of (0x80 + cp div 64 mod 64), char_of (0x80 + cp mod 64)])"

fun encode_units :: "unit16 list \<Rightarrow> string" where
  "encode_units [] = []"
| "encode_units (Raw c # us) = c # encode_units us"
| "encode_units (Esc hi # Esc lo # us) =
     (if 0xD800 \<le> hi \<and> hi < 0xDC00 \<and> 0xDC00 \<le> lo \<and> lo < 0xE000
      then utf8 (0x10000 + (hi - 0xD800) * 0x400 + (lo - 0xDC00)) @ encode_units us
      else utf8 hi @ encode_units (Esc lo # us))"
| "encode_units (Esc n # us) = utf8 n @ encode_units us"

text \<open>
  \<open>scan_number\<close> gives the number literal the input starts with: an optional minus, an
  integer part with no leading zero, an optional fraction, an optional exponent. A
  fraction or an exponent that is begun must have a digit.
\<close>

definition digits_then :: "string \<Rightarrow> (string \<times> string) option" where
  "digits_then cs =
     (if takeWhile is_digit cs = [] then None
      else Some (takeWhile is_digit cs, dropWhile is_digit cs))"

definition scan_number :: "string \<Rightarrow> string option" where
  "scan_number cs =
     (let sign = (if take 1 cs = ''-'' then ''-'' else []);
          r0 = drop (length sign) cs
      in case digits_then r0 of
           None \<Rightarrow> None
         | Some (ip, r1) \<Rightarrow>
             if 1 < length ip \<and> hd ip = CHR ''0'' then None
             else
               (case (if take 1 r1 = ''.''
                      then map_option (\<lambda>(ds, r). (CHR ''.'' # ds, r)) (digits_then (drop 1 r1))
                      else Some ([], r1)) of
                  None \<Rightarrow> None
                | Some (fp, r2) \<Rightarrow>
                    if take 1 r2 = ''e'' \<or> take 1 r2 = ''E'' then
                      (let es = (if take 1 (drop 1 r2) = ''+'' \<or> take 1 (drop 1 r2) = ''-''
                                 then take 2 r2 else take 1 r2)
                       in case digits_then (drop (length es) r2) of
                            None \<Rightarrow> None
                          | Some (ds, r3) \<Rightarrow> Some (sign @ ip @ fp @ es @ ds))
                    else Some (sign @ ip @ fp)))"

text \<open>Both scanners consume input, which is why the lexer terminates.\<close>

lemma and_then_len:
  "and_then x r = Some (ys, rest) \<Longrightarrow> \<exists>xs. r = Some (xs, rest)"
  by (auto simp: and_then_def split: option.splits)

lemma scan_string_shorter: "scan_string cs = Some (us, r) \<Longrightarrow> length r < Suc (length cs)"
proof (induction cs arbitrary: us r rule: scan_string.induct)
  case 1
  then show ?case by simp
next
  case (2 c cs)
  then show ?case
    by (fastforce simp: less_Suc_eq_le split: if_splits list.splits option.splits dest!: and_then_len)
qed

lemma scan_number_nonempty: "scan_number cs = Some l \<Longrightarrow> l \<noteq> []"
  by (auto simp: scan_number_def Let_def digits_then_def split: option.splits if_splits)

function lex :: "string \<Rightarrow> token list option" where
  "lex [] = Some []"
| "lex (c # cs) =
     (if is_ws c then lex cs
      else if c = CHR ''{'' then map_option (Cons TLBrace) (lex cs)
      else if c = CHR ''}'' then map_option (Cons TRBrace) (lex cs)
      else if c = CHR ''['' then map_option (Cons TLBracket) (lex cs)
      else if c = CHR '']'' then map_option (Cons TRBracket) (lex cs)
      else if c = CHR '':'' then map_option (Cons TColon) (lex cs)
      else if c = CHR '','' then map_option (Cons TComma) (lex cs)
      else if c = CHR 0x22 then
        (case scan_string cs of
           None \<Rightarrow> None
         | Some (us, r) \<Rightarrow> map_option (Cons (TString (encode_units us))) (lex r))
      else if c = CHR ''-'' \<or> is_digit c then
        (case scan_number (c # cs) of
           None \<Rightarrow> None
         | Some l \<Rightarrow> map_option (Cons (TNumber l)) (lex (drop (length l) (c # cs))))
      else if take 4 (c # cs) = ''true'' then map_option (Cons TTrue) (lex (drop 3 cs))
      else if take 5 (c # cs) = ''false'' then map_option (Cons TFalse) (lex (drop 4 cs))
      else if take 4 (c # cs) = ''null'' then map_option (Cons TNull) (lex (drop 3 cs))
      else None)"
  by pat_completeness auto
termination
proof (relation "measure length")
  fix c cs x2 x y
  assume "scan_string cs = Some x2" "(x, y) = x2"
  then show "(y, c # cs) \<in> measure length"
    using scan_string_shorter[of cs x y] by simp
next
  fix c :: char and cs l
  assume "scan_number (c # cs) = Some l"
  then have "l \<noteq> []" by (rule scan_number_nonempty)
  then show "(drop (length l) (c # cs), c # cs) \<in> measure length"
    by (cases l) auto
qed auto

text \<open>
  The parser reads the tokens from left to right. Its state says what may come next, and
  holds the value just completed or the stack of the arrays and objects that are open:
  an open array with the elements read so far, an open object with its members so far
  and the key whose value is being read.
\<close>

datatype 'n frame = FArr "'n jsval list" | FObj "(string \<times> 'n jsval) list" string

datatype 'n pstate =
    PValue "'n frame list"
  | PArrayStart "'n frame list"
  | PObjectStart "'n frame list"
  | PKey "(string \<times> 'n jsval) list" "'n frame list"
  | PColon "(string \<times> 'n jsval) list" string "'n frame list"
  | PDone "'n jsval" "'n frame list"

fun obj_put :: "string \<Rightarrow> 'v \<Rightarrow> (string \<times> 'v) list \<Rightarrow> (string \<times> 'v) list" where
  "obj_put k v [] = [(k, v)]"
| "obj_put k v ((k', v') # r) = (if k = k' then (k, v) # r else (k', v') # obj_put k v r)"

text \<open>A token that starts a value: a scalar is complete at once, a bracket opens.\<close>

fun begin_value :: "'n number_ops \<Rightarrow> 'n frame list \<Rightarrow> token \<Rightarrow> 'n pstate option" where
  "begin_value P st TLBrace = Some (PObjectStart st)"
| "begin_value P st TLBracket = Some (PArrayStart st)"
| "begin_value P st (TString s) = Some (PDone (JStr s) st)"
| "begin_value P st (TNumber l) = Some (PDone (JNum (num_of_literal P l)) st)"
| "begin_value P st TTrue = Some (PDone (JBool True) st)"
| "begin_value P st TFalse = Some (PDone (JBool False) st)"
| "begin_value P st TNull = Some (PDone JNull st)"
| "begin_value P st t = None"

fun pstep :: "'n number_ops \<Rightarrow> 'n pstate \<Rightarrow> token \<Rightarrow> 'n pstate option" where
  "pstep P (PValue st) t = begin_value P st t"
| "pstep P (PArrayStart st) t =
     (if t = TRBracket then Some (PDone (JArr []) st) else begin_value P (FArr [] # st) t)"
| "pstep P (PObjectStart st) t =
     (case t of
        TRBrace \<Rightarrow> Some (PDone (JObj []) st)
      | TString k \<Rightarrow> Some (PColon [] k st)
      | _ \<Rightarrow> None)"
| "pstep P (PKey ms st) t = (case t of TString k \<Rightarrow> Some (PColon ms k st) | _ \<Rightarrow> None)"
| "pstep P (PColon ms k st) t = (if t = TColon then Some (PValue (FObj ms k # st)) else None)"
| "pstep P (PDone v []) t = None"
| "pstep P (PDone v (FArr es # st)) t =
     (case t of
        TComma \<Rightarrow> Some (PValue (FArr (es @ [v]) # st))
      | TRBracket \<Rightarrow> Some (PDone (JArr (es @ [v])) st)
      | _ \<Rightarrow> None)"
| "pstep P (PDone v (FObj ms k # st)) t =
     (case t of
        TComma \<Rightarrow> Some (PKey (obj_put k v ms) st)
      | TRBrace \<Rightarrow> Some (PDone (JObj (obj_put k v ms)) st)
      | _ \<Rightarrow> None)"

fun prun :: "'n number_ops \<Rightarrow> 'n pstate \<Rightarrow> token list \<Rightarrow> 'n jsval option" where
  "prun P s [] = (case s of PDone v [] \<Rightarrow> Some v | _ \<Rightarrow> None)"
| "prun P s (t # ts) = (case pstep P s t of None \<Rightarrow> None | Some s' \<Rightarrow> prun P s' ts)"

text \<open>The input is a JSON text when the tokens end on a complete value with nothing open.\<close>

definition JSON_parse :: "'n number_ops \<Rightarrow> string \<Rightarrow> 'n jsval option" where
  "JSON_parse P text = (case lex text of None \<Rightarrow> None | Some ts \<Rightarrow> prun P (PValue []) ts)"

section \<open>The envelope decoder: \<^verbatim>\<open>handleResponse\<close>\<close>

record 'n decoded =
  data :: "'n jsval"
  error :: "'n jsval"

definition handleResponse :: "'n number_ops \<Rightarrow> 'n jsval \<Rightarrow> 'n decoded" where
  "handleResponse P res =
     (if typeof res = ''object'' \<and> truthy P res \<and> js_in ''error'' res
         \<and> typeof (get_property res ''error'') = ''string''
      then \<lparr>data = JUndefined, error = get_property res ''error''\<rparr>
      else if typeof res = ''object'' \<and> truthy P res \<and> js_in ''data'' res
      then \<lparr>data = get_property res ''data'', error = JUndefined\<rparr>
      else \<lparr>data = JUndefined, error = JStr ''No response from the server''\<rparr>)"

text \<open>
  The decoder as the specification words it: an outcome that is a failure with a string
  payload or a success with a payload, decided on the shape of the body.
\<close>

datatype 'n outcome = Failure string | Success "'n jsval"

fun decode_spec :: "'n jsval \<Rightarrow> 'n outcome" where
  "decode_spec (JObj kvs) =
     (case map_of kvs ''error'' of
        Some (JStr s) \<Rightarrow> Failure s
      | _ \<Rightarrow> (case map_of kvs ''data'' of
                Some x \<Rightarrow> Success x
              | None \<Rightarrow> Failure ''No response from the server''))"
| "decode_spec b = Failure ''No response from the server''"

text \<open>The outcome a result of \<open>handleResponse\<close> stands for: a failure when its
  \<open>error\<close> field is a string, a success with its \<open>data\<close> otherwise.\<close>

definition outcome_of :: "'n decoded \<Rightarrow> 'n outcome" where
  "outcome_of r = (case error r of JStr s \<Rightarrow> Failure s | _ \<Rightarrow> Success (data r))"

section \<open>The request executor: \<^verbatim>\<open>buildQuery\<close>\<close>

datatype http_method = POST | GET | PATCH | PUT | DELETE

record 'n query =
  endpoint :: string
  meth :: http_method
  q_data :: "'n jsval"
  params :: "'n jsval"

record 'n axios_config =
  url :: string
  cfg_method :: http_method
  cfg_data :: "'n jsval"
  cfg_params :: "'n jsval"

record 'n axios_response =
  resp_data :: "'n jsval"

text \<open>
  An \<^verbatim>\<open>AxiosError\<close>: the request object (\<^verbatim>\<open>any\<close>; in a browser the XMLHttpRequest) and
  the response, when one was received.
\<close>

record 'n axios_error =
  request :: "'n jsval"
  response :: "'n axios_response option"

text \<open>
  The transport (\<^verbatim>\<open>axios\<close>) and the base URL (\<^verbatim>\<open>getServerBaseUrl()\<close>) are collaborators
  outside the source: \<open>axios\<close> is a parameter that gives, for a request, either the error
  the promise rejects with or the response it resolves to. A rejected \<^verbatim>\<open>await\<close> leaves
  \<open>buildQuery\<close> at once (\<open>Inl\<close>); otherwise the body is decoded and the \<open>data\<close> field of the
  decoder's result is returned.
\<close>

definition buildQuery ::
  "'n number_ops \<Rightarrow> ('n axios_config \<Rightarrow> 'n axios_error + 'n axios_response) \<Rightarrow> string
     \<Rightarrow> 'n query \<Rightarrow> 'n axios_error + 'n jsval" where
  "buildQuery P axios baseUrl q =
     (case axios \<lparr>url = baseUrl @ endpoint q, cfg_method = meth q,
                   cfg_data = q_data q, cfg_params = params q\<rparr> of
        Inl e \<Rightarrow> Inl e
      | Inr res \<Rightarrow> Inr (data (handleResponse P (resp_data res))))"

section \<open>Effects: the notifier and the console\<close>

text \<open>
  The source has two effects besides its requests: \<^verbatim>\<open>toast.error(message)\<close>, the
  notifier, and \<^verbatim>\<open>console.log\<close>. The state of the world is what each has received so
  far, in order; a function with effects takes the world and returns it updated.
\<close>

datatype 'n log_entry =
    Log string "'n jsval"
  | LogError string "'n axios_error option"

record 'n world =
  toasts :: "string list"
  console :: "'n log_entry list"

definition toast_error :: "string \<Rightarrow> 'n world \<Rightarrow> 'n world" where
  "toast_error message w = w\<lparr>toasts := toasts w @ [message]\<rparr>"

definition console_log :: "'n log_entry \<Rightarrow> 'n world \<Rightarrow> 'n world" where
  "console_log entry w = w\<lparr>console := console w @ [entry]\<rparr>"

section \<open>The error classifier: \<^verbatim>\<open>handleError\<close>\<close>

text \<open>
  The result is the string returned (\<open>Inr\<close>) or the exception that leaves the function
  (\<open>Inl\<close>), with the world after it. \<^verbatim>\<open>err.includes\<close> stands outside the
  \<^verbatim>\<open>try\<close>, so its TypeError leaves the function. Inside the \<^verbatim>\<open>try\<close> these can
  raise, in the order of evaluation: the conversion of \<open>err\<close> to a string and the
  SyntaxError of \<^verbatim>\<open>JSON.parse\<close>, both before \<^verbatim>\<open>console.log\<close> has run; then reading
  \<^verbatim>\<open>graphqlErrors\<close> from \<^verbatim>\<open>null\<close>, the comparison \<^verbatim>\<open>length > 0\<close>, and the
  conversion of the message in \<^verbatim>\<open>"Anilist error: " + message\<close>. The \<^verbatim>\<open>catch\<close>
  answers each with \<^verbatim>\<open>"Error: " + err\<close>, which raises in its turn when \<open>err\<close> cannot
  be converted; that TypeError leaves the function.
\<close>

definition catch_block ::
  "'n number_ops \<Rightarrow> 'n jsval \<Rightarrow> 'n world \<Rightarrow> (exn + string) \<times> 'n world" where
  "catch_block P err w = (js_plus P ''Error: '' err, w)"

definition handleError ::
  "'n number_ops \<Rightarrow> 'n jsval \<Rightarrow> 'n world \<Rightarrow> (exn + string) \<times> 'n world" where
  "handleError P d w =
     (if typeof d = ''string'' then (js_plus P ''Server Error'' d, w)
      else
        let err = opt_member d ''error'' in
        if \<not> truthy P err then (Inr ''Unknown error'', w)
        else
          (case method_includes err ''Too many requests'' of
             None \<Rightarrow> (Inl TypeError, w)
           | Some True \<Rightarrow>
               (Inr ''Anilist: Too many requests, please wait a moment and try again'', w)
           | Some False \<Rightarrow>
               (case to_string P err of
                  None \<Rightarrow> catch_block P err w
                | Some json \<Rightarrow>
                    (case JSON_parse P json of
                       None \<Rightarrow> catch_block P err w
                     | Some graphqlErr \<Rightarrow>
                         let w' = console_log (Log ''Anilist error'' graphqlErr) w in
                         (case member graphqlErr ''graphqlErrors'' of
                            Inl e \<Rightarrow> catch_block P err w'
                          | Inr g \<Rightarrow>
                              if \<not> truthy P g then (Inr ''Anilist error'', w')
                              else
                                (case length_gt0 P g of
                                   None \<Rightarrow> catch_block P err w'
                                 | Some False \<Rightarrow> (Inr ''Anilist error'', w')
                                 | Some True \<Rightarrow>
                                     if truthy P (opt_member (get_property g ''0'') ''message'')
                                     then
                                       (case js_plus P ''Anilist error: ''
                                               (opt_member (get_property g ''0'') ''message'') of
                                          Inl e \<Rightarrow> catch_block P err w'
                                        | Inr s \<Rightarrow> (Inr s, w'))
                                     else (Inr ''Anilist error'', w')))))))"

section \<open>The mutation wrapper: \<^verbatim>\<open>useServerMutation\<close>\<close>

text \<open>
  A configuration object is a map from option names to their values. The two functions
  the wrapper itself supplies are an error callback and a mutation function; a caller may
  supply these and any other option of the query library: other callbacks (as effects on
  the world) and plain values. The object literal
  \<^verbatim>\<open>{ onError: ..., mutationFn: ..., ...options }\<close> is the map of the two defaults
  overridden by \<open>options\<close>.
\<close>

datatype 'n slot =
    OnErrorFn "'n axios_error \<Rightarrow> 'n world \<Rightarrow> exn option \<times> 'n world"
  | MutationFn "'n jsval \<Rightarrow> 'n world \<Rightarrow> ('n axios_error + 'n jsval) \<times> 'n world"
  | Hook "'n world \<Rightarrow> 'n world"
  | Plain "'n jsval"

type_synonym 'n config = "string \<rightharpoonup> 'n slot"

record 'n server_mutation =
  m_endpoint :: string
  m_method :: http_method
  m_options :: "'n config"

text \<open>The default error callback:
  \<^verbatim>\<open>(error) => { toast.error(handleError(error.request?.data)) }\<close>. When
  \<open>handleError\<close> raises, the notifier is not reached.\<close>

definition default_onError ::
  "'n number_ops \<Rightarrow> 'n axios_error \<Rightarrow> 'n world \<Rightarrow> exn option \<times> 'n world" where
  "default_onError P err w =
     (case handleError P (opt_member (request err) ''data'') w of
        (Inl x, w') \<Rightarrow> (Some x, w')
      | (Inr message, w') \<Rightarrow> (None, toast_error message w'))"

text \<open>The default mutation function:
  \<^verbatim>\<open>(variables) => buildQuery({ endpoint, method, data: variables })\<close>.\<close>

definition default_mutationFn ::
  "'n number_ops \<Rightarrow> ('n axios_config \<Rightarrow> 'n axios_error + 'n axios_response) \<Rightarrow> string
     \<Rightarrow> 'n server_mutation \<Rightarrow> 'n jsval \<Rightarrow> 'n world \<Rightarrow> ('n axios_error + 'n jsval) \<times> 'n world" where
  "default_mutationFn P axios baseUrl sm variables w =
     (buildQuery P axios baseUrl
        \<lparr>endpoint = m_endpoint sm, meth = m_method sm, q_data = variables, params = JUndefined\<rparr>,
      w)"

definition mutation_config ::
  "'n number_ops \<Rightarrow> ('n axios_config \<Rightarrow> 'n axios_error + 'n axios_response) \<Rightarrow> string
     \<Rightarrow> 'n server_mutation \<Rightarrow> 'n config" where
  "mutation_config P axios baseUrl sm =
     [''onError'' \<mapsto> OnErrorFn (default_onError P),
      ''mutationFn'' \<mapsto> MutationFn (default_mutationFn P axios baseUrl sm)]
     ++ m_options sm"

text \<open>
  The query library's \<^verbatim>\<open>useMutation\<close> is a collaborator outside the source. What is
  modelled of it is one trigger of the mutation: the \<^verbatim>\<open>onMutate\<close> hook, then the mutation
  function once (mutations are not retried by default); when it resolves, the
  \<^verbatim>\<open>onSuccess\<close> and \<^verbatim>\<open>onSettled\<close> hooks; when it rejects, the \<^verbatim>\<open>onError\<close> callback
  with the error, then \<^verbatim>\<open>onSettled\<close>. A slot that holds no function is skipped. An
  exception raised by the error callback replaces the rejection.
\<close>

datatype 'n settled = Resolved "'n jsval" | Rejected "'n axios_error" | Threw exn

definition run_hook :: "'n config \<Rightarrow> string \<Rightarrow> 'n world \<Rightarrow> 'n world" where
  "run_hook cfg name w = (case cfg name of Some (Hook h) \<Rightarrow> h w | _ \<Rightarrow> w)"

definition run_onError ::
  "'n config \<Rightarrow> 'n axios_error \<Rightarrow> 'n world \<Rightarrow> exn option \<times> 'n world" where
  "run_onError cfg e w = (case cfg ''onError'' of Some (OnErrorFn h) \<Rightarrow> h e w | _ \<Rightarrow> (None, w))"

definition useMutation ::
  "'n config \<Rightarrow> 'n jsval \<Rightarrow> 'n world \<Rightarrow> 'n settled option \<times> 'n world" where
  "useMutation cfg variables w =
     (case cfg ''mutationFn'' of
        Some (MutationFn f) \<Rightarrow>
          (case f variables (run_hook cfg ''onMutate'' w) of
             (Inr v, w1) \<Rightarrow>
               (Some (Resolved v), run_hook cfg ''onSettled'' (run_hook cfg ''onSuccess'' w1))
           | (Inl e, w1) \<Rightarrow>
               (case run_onError cfg e w1 of
                  (Some x, w2) \<Rightarrow> (Some (Threw x), w2)
                | (None, w2) \<Rightarrow> (Some (Rejected e), run_hook cfg ''onSettled'' w2)))
      | _ \<Rightarrow> (None, w))"

definition useServerMutation ::
  "'n number_ops \<Rightarrow> ('n axios_config \<Rightarrow> 'n axios_error + 'n axios_response) \<Rightarrow> string
     \<Rightarrow> 'n server_mutation \<Rightarrow> 'n jsval \<Rightarrow> 'n world \<Rightarrow> 'n settled option \<times> 'n world" where
  "useServerMutation P axios baseUrl sm = useMutation (mutation_config P axios baseUrl sm)"

section \<open>The query wrapper: \<^verbatim>\<open>useServerQuery\<close>\<close>











section \<open>Closed examples\<close>

text \<open>
  The examples below contain no number and no step of them consults the operations on
  numbers, so they are evaluated with the numbers collapsed to one value.
\<close>

definition no_numbers :: "unit number_ops" where
  "no_numbers =
     \<lparr>num_of_literal = (\<lambda>l. ()), num_truthy = (\<lambda>n. True), num_to_string = (\<lambda>n. ''0''),
      num_gt0 = (\<lambda>n. True), string_gt0 = (\<lambda>s. False)\<rparr>"

definition quiet :: "unit world" where
  "quiet = \<lparr>toasts = [], console = []\<rparr>"

section \<open>Vocabulary of the statements\<close>

text \<open>
  The values of an \<open>error\<close> field on which the classifier raises: a truthy value that is
  neither a string nor an array has no \<^verbatim>\<open>includes\<close> to call (\<^verbatim>\<open>true\<close>, a number other
  than zero, a plain object); an array has one, and raises later when it does not hold
  the string \<open>Too many requests\<close> and cannot be converted to a string.
\<close>

fun error_raises :: "'n number_ops \<Rightarrow> 'n jsval \<Rightarrow> bool" where
  "error_raises P (JStr s) = False"
| "error_raises P (JArr xs) =
     (JStr ''Too many requests'' \<notin> set xs \<and> to_string P (JArr xs) = None)"
| "error_raises P v = truthy P v"

definition raises_on :: "'n number_ops \<Rightarrow> 'n jsval \<Rightarrow> bool" where
  "raises_on P d = (typeof d \<noteq> ''string'' \<and> error_raises P (opt_member d ''error''))"

text \<open>
  Two transports for the statements: one that completes with a given body, one that
  fails with a given error.
\<close>

definition replies ::
  "'n jsval \<Rightarrow> 'n axios_config \<Rightarrow> 'n axios_error + 'n axios_response" where
  "replies body cfg = Inr \<lparr>resp_data = body\<rparr>"

definition rejects ::
  "'n axios_error \<Rightarrow> 'n axios_config \<Rightarrow> 'n axios_error + 'n axios_response" where
  "rejects e cfg = Inl e"

text \<open>
  The first entry of a parsed \<open>graphqlErrors\<close> value \<open>g\<close>, said by the shape of \<open>g\<close>.
  A non-empty list has its first element. So has whatever else is truthy with
  a length above zero: a non-empty string (its first character) and a plain object
  with a \<open>length\<close> property above zero (its property \<open>0\<close>). Every other value has no
  first entry (\<open>Some None\<close>). Looking for it raises (\<open>None\<close>) when the \<open>length\<close> of a
  plain object cannot be compared with zero.
\<close>

fun first_entry :: "'n number_ops \<Rightarrow> 'n jsval \<Rightarrow> 'n jsval option option" where
  "first_entry P (JArr []) = Some None"
| "first_entry P (JArr (x # xs)) = Some (Some x)"
| "first_entry P (JStr []) = Some None"
| "first_entry P (JStr (c # cs)) = Some (Some (JStr [c]))"
| "first_entry P (JObj kvs) =
     (case map_of kvs ''length'' of
        None \<Rightarrow> Some None
      | Some l \<Rightarrow>
          (case gt0 P l of
             None \<Rightarrow> None
           | Some False \<Rightarrow> Some None
           | Some True \<Rightarrow>
               Some (Some (case map_of kvs ''0'' of None \<Rightarrow> JUndefined | Some x \<Rightarrow> x))))"
| "first_entry P g = Some None"

text \<open>
  The message for an error string \<open>e\<close> that parsed to \<open>v\<close>, said by cases on \<open>v\<close>:
  \<open>Error: e\<close> when \<open>v\<close> is \<^verbatim>\<open>null\<close> or something in the way raises;
  \<open>Anilist error: \<close> and the message of the first entry when there is one and it is
  truthy; \<open>Anilist error\<close> otherwise.
\<close>

definition parsed_message :: "'n number_ops \<Rightarrow> string \<Rightarrow> 'n jsval \<Rightarrow> string" where
  "parsed_message P e v =
     (if nullish v then ''Error: '' @ e
      else
        (case first_entry P (get_property v ''graphqlErrors'') of
           None \<Rightarrow> ''Error: '' @ e
         | Some None \<Rightarrow> ''Anilist error''
         | Some (Some x) \<Rightarrow>
             if truthy P (opt_member x ''message'')
             then (case to_string P (opt_member x ''message'') of
                     None \<Rightarrow> ''Error: '' @ e
                   | Some m \<Rightarrow> ''Anilist error: '' @ m)
             else ''Anilist error''))"

text \<open>A caller's error callback that notifies in its own words.\<close>

definition announce :: "'n axios_error \<Rightarrow> 'n world \<Rightarrow> exn option \<times> 'n world" where
  "announce e w = (None, toast_error ''caller ran'' w)"





section \<open>Property names\<close>

lemma array_index_error [simp]: "array_index ''error'' = None"
  by (simp add: array_index_def is_digit_def)

lemma array_index_data [simp]: "array_index ''data'' = None"
  by (simp add: array_index_def is_digit_def)

lemma array_index_message [simp]: "array_index ''message'' = None"
  by (simp add: array_index_def is_digit_def)

lemma array_index_0 [simp]: "array_index ''0'' = Some 0"
  by (simp add: array_index_def)

section \<open>The envelope decoder agrees with its specification\<close>

lemma handleResponse_decode_spec:
  "handleResponse P b =
     (case decode_spec b of
        Failure s \<Rightarrow> \<lparr>data = JUndefined, error = JStr s\<rparr>
      | Success x \<Rightarrow> \<lparr>data = x, error = JUndefined\<rparr>)"
proof (cases b)
  case (JObj kvs)
  show ?thesis
  proof (cases "map_of kvs ''error''")
    case None
    then show ?thesis
      unfolding JObj handleResponse_def
      by (simp add: map_of_eq_None_iff[symmetric] split: option.splits)
  next
    case (Some e)
    then show ?thesis
      unfolding JObj handleResponse_def
      by (cases e) (simp_all add: map_of_eq_None_iff[symmetric] split: option.splits)
  qed
qed (simp_all add: handleResponse_def)

text \<open>
  Claim C2. For every decoded body \<open>b\<close>, \<open>handleResponse\<close> returns exactly what the
  specification's decoder says: the failure \<open>{data: undefined, error: b.error}\<close> when \<open>b\<close>
  is an object whose \<open>error\<close> is a string; otherwise the success
  \<open>{data: b.data, error: undefined}\<close> when \<open>b\<close> is an object with a \<open>data\<close> field, whatever
  its value; otherwise the failure with the payload \<open>No response from the server\<close>.
\<close>

theorem handleResponse_decodes:
  "handleResponse P b =
     (case decode_spec b of
        Failure s \<Rightarrow> \<lparr>data = JUndefined, error = JStr s\<rparr>
      | Success x \<Rightarrow> \<lparr>data = x, error = JUndefined\<rparr>)
   \<and> outcome_of (handleResponse P b) = decode_spec b"
  by (simp add: handleResponse_decode_spec outcome_of_def split: outcome.splits)

text \<open>
  Claim C10. When a body is an object with both a string \<open>error\<close> and a \<open>data\<close> field, the
  decoder returns the failure with the error string: the error is tested first.
\<close>

theorem handleResponse_error_first:
  "map_of kvs ''error'' = Some (JStr s) \<Longrightarrow> map_of kvs ''data'' = Some x \<Longrightarrow>
     handleResponse P (JObj kvs) = \<lparr>data = JUndefined, error = JStr s\<rparr>"
  by (simp add: handleResponse_def map_of_eq_None_iff[symmetric])

theorem handleResponse_error_first_witness:
  "handleResponse no_numbers (JObj [(''data'', JArr [JStr ''a'']), (''error'', JStr ''denied'')])
     = \<lparr>data = JUndefined, error = JStr ''denied''\<rparr>"
  using handleResponse_error_first
    [of "[(''data'', JArr [JStr ''a'']), (''error'', JStr ''denied'')]" "''denied''"
        "JArr [JStr ''a'']" no_numbers]
  by simp

section \<open>The request executor returns, it does not raise\<close>

text \<open>
  Claim C1, as the code has it. When the transport completes, \<open>buildQuery\<close> returns
  normally whatever the decoder found: the payload when the outcome is a success,
  \<^verbatim>\<open>undefined\<close> when it is a failure. The failure payload is dropped; nothing is
  raised.
\<close>

theorem buildQuery_returns:
  "axios \<lparr>url = baseUrl @ endpoint q, cfg_method = meth q, cfg_data = q_data q,
           cfg_params = params q\<rparr> = Inr res \<Longrightarrow>
   buildQuery P axios baseUrl q =
     Inr (case decode_spec (resp_data res) of Success x \<Rightarrow> x | Failure s \<Rightarrow> JUndefined)"
  by (simp add: buildQuery_def handleResponse_decode_spec split: outcome.splits)

theorem buildQuery_returns_witness:
  "buildQuery no_numbers (replies (JObj [(''data'', JStr ''ok'')])) ''http://localhost:43211''
     \<lparr>endpoint = ''/api/v1/status'', meth = GET, q_data = JUndefined, params = JUndefined\<rparr>
   = Inr (JStr ''ok'')"
  using buildQuery_returns
    [of "replies (JObj [(''data'', JStr ''ok'')])" "''http://localhost:43211''"
        "\<lparr>endpoint = ''/api/v1/status'', meth = GET, q_data = JUndefined, params = JUndefined\<rparr>"
        "\<lparr>resp_data = JObj [(''data'', JStr ''ok'')]\<rparr>" no_numbers]
  by (simp add: replies_def)

text \<open>
  The claim as written fails: on the declared failure \<open>{error: "not found"}\<close> the
  decoder reports a failure and \<open>buildQuery\<close> returns \<^verbatim>\<open>undefined\<close>.
\<close>

theorem buildQuery_failure_returns:
  "outcome_of (handleResponse no_numbers (JObj [(''error'', JStr ''not found'')]))
     = Failure ''not found''
   \<and> buildQuery no_numbers (replies (JObj [(''error'', JStr ''not found'')]))
        ''http://localhost:43211''
        \<lparr>endpoint = ''/api/v1/status'', meth = GET, q_data = JUndefined, params = JUndefined\<rparr>
      = Inr JUndefined"
  by (simp add: buildQuery_def replies_def handleResponse_def outcome_of_def)

section \<open>The error classifier\<close>

lemma handleError_world:
  "fst (handleError P d w) = fst (handleError P d w')"
  by (simp add: handleError_def catch_block_def Let_def
      split: option.splits sum.splits bool.splits)

lemma str_includes_nonempty: "str_includes e (n # ns) \<Longrightarrow> e \<noteq> []"
  by auto

text \<open>
  Claim C9. The classifier is deterministic: its result does not depend on the state of
  the world it runs in, so a second call on the same payload, in the world the first call
  left behind, gives the same result as the first.
\<close>

theorem handleError_deterministic:
  "fst (handleError P p (snd (handleError P p w))) = fst (handleError P p w)
   \<and> fst (handleError P p w') = fst (handleError P p w)"
  using handleError_world by metis

text \<open>
  Claim C5. The first three steps of the classifier, in order: a string payload \<open>s\<close>
  gives \<open>Server Error\<close> followed by \<open>s\<close>; a payload that is not a string and whose \<open>error\<close>
  is absent or the empty string gives \<open>Unknown error\<close>; a payload that is not a string
  and whose \<open>error\<close> is a string containing \<open>Too many requests\<close> gives the rate-limit
  message. None of the three has an effect.
\<close>

theorem handleError_first_steps:
  "handleError P (JStr s) w = (Inr (''Server Error'' @ s), w)
   \<and> (typeof d1 \<noteq> ''string''
        \<and> (opt_member d1 ''error'' = JUndefined \<or> opt_member d1 ''error'' = JStr [])
      \<longrightarrow> handleError P d1 w = (Inr ''Unknown error'', w))
   \<and> (typeof d2 \<noteq> ''string'' \<and> opt_member d2 ''error'' = JStr e
        \<and> str_includes e ''Too many requests''
      \<longrightarrow> handleError P d2 w =
            (Inr ''Anilist: Too many requests, please wait a moment and try again'', w))"
proof (intro conjI impI)
  show "handleError P (JStr s) w = (Inr (''Server Error'' @ s), w)"
    by (simp add: handleError_def js_plus_def)
next
  assume "typeof d1 \<noteq> ''string''
    \<and> (opt_member d1 ''error'' = JUndefined \<or> opt_member d1 ''error'' = JStr [])"
  then show "handleError P d1 w = (Inr ''Unknown error'', w)"
    by (auto simp: handleError_def)
next
  assume h: "typeof d2 \<noteq> ''string'' \<and> opt_member d2 ''error'' = JStr e
    \<and> str_includes e ''Too many requests''"
  then have "e \<noteq> []" using str_includes_nonempty by blast
  with h show "handleError P d2 w =
      (Inr ''Anilist: Too many requests, please wait a moment and try again'', w)"
    by (simp add: handleError_def)
qed

theorem handleError_first_steps_witness:
  "handleError no_numbers (JStr ''raw string'') quiet = (Inr ''Server Errorraw string'', quiet)
   \<and> handleError no_numbers (JObj []) quiet = (Inr ''Unknown error'', quiet)
   \<and> handleError no_numbers (JObj [(''error'', JStr ''Too many requests from X'')]) quiet =
       (Inr ''Anilist: Too many requests, please wait a moment and try again'', quiet)"
  using handleError_first_steps
    [of no_numbers "''raw string''" quiet "JObj []"
        "JObj [(''error'', JStr ''Too many requests from X'')]" "''Too many requests from X''"]
  by (simp add: opt_member_def)

subsection \<open>Where the classifier raises\<close>

lemma typeof_string: "typeof d = ''string'' \<Longrightarrow> \<exists>s. d = JStr s"
  by (cases d) simp_all

lemma falsy_no_raise: "\<not> truthy P err \<Longrightarrow> \<not> error_raises P err"
  by (cases err) simp_all

lemma handleError_on_string:
  assumes "typeof d \<noteq> ''string''" "opt_member d ''error'' = JStr s" "s \<noteq> []"
  shows "\<exists>t. fst (handleError P d w) = Inr t \<and> t \<noteq> []"
  using assms
  by (auto simp: handleError_def catch_block_def js_plus_def Let_def
      split: option.splits sum.splits bool.splits)

lemma handleError_on_array:
  assumes "typeof d \<noteq> ''string''" "opt_member d ''error'' = JArr xs"
  shows "if JStr ''Too many requests'' \<notin> set xs \<and> to_string P (JArr xs) = None
         then fst (handleError P d w) = Inl TypeError
         else \<exists>t. fst (handleError P d w) = Inr t \<and> t \<noteq> []"
proof (cases "to_string P (JArr xs)")
  case None
  with assms show ?thesis
    by (simp add: handleError_def catch_block_def js_plus_def)
next
  case (Some json)
  with assms show ?thesis
    by (auto simp: handleError_def catch_block_def js_plus_def Let_def
        split: option.splits sum.splits bool.splits)
qed

lemma handleError_cases:
  "(if raises_on P d
    then fst (handleError P d w) = Inl TypeError
    else \<exists>s. fst (handleError P d w) = Inr s \<and> s \<noteq> [])"
proof (cases "typeof d = ''string''")
  case True
  then obtain s where "d = JStr s" using typeof_string by blast
  then show ?thesis by (simp add: raises_on_def handleError_def js_plus_def)
next
  case False
  show ?thesis
  proof (cases "truthy P (opt_member d ''error'')")
    case f: False
    with False show ?thesis
      by (simp add: handleError_def raises_on_def falsy_no_raise)
  next
    case t: True
    show ?thesis
    proof (cases "opt_member d ''error''")
      case (JStr s)
      with t have "s \<noteq> []" by simp
      with False JStr show ?thesis
        using handleError_on_string[of d s P w] by (simp add: raises_on_def)
    next
      case (JArr xs)
      with False show ?thesis
        using handleError_on_array[of d xs P w] by (simp add: raises_on_def)
    qed (use False t in \<open>simp_all add: handleError_def raises_on_def\<close>)
  qed
qed

text \<open>
  Claim C4, as the code has it. The classifier ends on every input. It raises a TypeError
  in two cases, both with a payload that is not a string: its \<open>error\<close> is a truthy value
  with no \<^verbatim>\<open>includes\<close> method (\<^verbatim>\<open>true\<close>, a number other than zero, an object), where
  \<^verbatim>\<open>err.includes\<close> raises outside the \<^verbatim>\<open>try\<close>; or its \<open>error\<close> is an array that
  does not hold the string \<open>Too many requests\<close> and cannot be converted to a string,
  where the conversion raises in the \<^verbatim>\<open>try\<close> and again in the \<^verbatim>\<open>catch\<close>. On every
  other input it returns a string, and the string is never empty.
\<close>

theorem handleError_total:
  "(if raises_on P d
    then fst (handleError P d w) = Inl TypeError
    else \<exists>s. fst (handleError P d w) = Inr s \<and> s \<noteq> [])"
  by (rule handleError_cases)

lemma parse_not_json: "JSON_parse P ''not json'' = None"
  by (simp add: JSON_parse_def is_ws_def is_digit_def)

theorem handleError_total_witness:
  "fst (handleError no_numbers (JObj [(''error'', JStr ''not json'')]) quiet)
     = Inr ''Error: not json''
   \<and> fst (handleError no_numbers (JObj [(''error'', JArr [JStr ''a'', JNull, JStr ''b''])]) quiet)
     = Inr ''Error: a,,b''
   \<and> fst (handleError no_numbers
        (JObj [(''error'', JArr [JObj [(''toString'', JStr ''x'')]])]) quiet)
     = Inl TypeError"
  using handleError_total [of no_numbers "JObj [(''error'', JStr ''not json'')]" quiet]
    handleError_total [of no_numbers "JObj [(''error'', JArr [JStr ''a'', JNull, JStr ''b''])]" quiet]
    handleError_total
      [of no_numbers "JObj [(''error'', JArr [JObj [(''toString'', JStr ''x'')]])]" quiet]
  by (simp add: handleError_def raises_on_def opt_member_def catch_block_def js_plus_def
      JSON_parse_def is_ws_def is_digit_def)

text \<open>The claim as written fails on the payload \<open>{error: true}\<close>.\<close>

theorem handleError_raises:
  "fst (handleError no_numbers (JObj [(''error'', JBool True)]) quiet) = Inl TypeError"
  by (simp add: handleError_def opt_member_def)

subsection \<open>After the parse\<close>

lemma first_entry_falsy: "\<not> truthy P g \<Longrightarrow> first_entry P g = Some None"
  by (induction P g rule: first_entry.induct) simp_all

lemma first_entry_truthy:
  "truthy P g \<Longrightarrow>
     first_entry P g =
       (case length_gt0 P g of
          None \<Rightarrow> None
        | Some False \<Rightarrow> Some None
        | Some True \<Rightarrow> Some (Some (get_property g ''0'')))"
  by (induction P g rule: first_entry.induct) (simp_all split: option.splits bool.splits)

lemma handleError_parse:
  assumes "typeof d \<noteq> ''string''" "opt_member d ''error'' = JStr e" "e \<noteq> []"
    "\<not> str_includes e ''Too many requests''"
  shows "fst (handleError P d w) =
     Inr (case JSON_parse P e of
            None \<Rightarrow> ''Error: '' @ e
          | Some v \<Rightarrow> parsed_message P e v)"
proof (cases "JSON_parse P e")
  case None
  with assms show ?thesis
    by (simp add: handleError_def catch_block_def js_plus_def)
next
  case (Some v)
  show ?thesis
  proof (cases "nullish v")
    case True
    with assms Some show ?thesis
      by (simp add: handleError_def catch_block_def js_plus_def member_def parsed_message_def)
  next
    case nn: False
    let ?g = "get_property v ''graphqlErrors''"
    show ?thesis
    proof (cases "truthy P ?g")
      case False
      with assms Some nn show ?thesis
        by (simp add: handleError_def member_def parsed_message_def first_entry_falsy)
    next
      case True
      with assms Some nn show ?thesis
        by (simp add: handleError_def catch_block_def js_plus_def member_def parsed_message_def
            first_entry_truthy Let_def split: option.splits bool.splits)
    qed
  qed
qed

text \<open>
  Claim C3, as the code has it. For a payload whose \<open>error\<close> is a non-empty string \<open>e\<close>
  without \<open>Too many requests\<close>: when \<open>e\<close> does not parse, or parses to \<^verbatim>\<open>null\<close>, the
  result is \<open>Error: \<close> followed by \<open>e\<close>. When it parses to another value, the result is
  \<open>Anilist error: \<close> followed by the message of the first entry of its \<open>graphqlErrors\<close>
  if there is a first entry and its \<open>message\<close> is truthy, and exactly \<open>Anilist error\<close>
  if there is none (no \<open>graphqlErrors\<close>, an empty list, nothing with a length above
  zero) or its \<open>message\<close> is absent or falsy. Where looking for the first entry or
  converting the message to a string raises, the result is again \<open>Error: \<close> followed
  by \<open>e\<close>.
\<close>

theorem handleError_parsed:
  assumes "typeof d \<noteq> ''string''" "opt_member d ''error'' = JStr e" "e \<noteq> []"
    "\<not> str_includes e ''Too many requests''"
  shows "fst (handleError P d w) =
     Inr (case JSON_parse P e of
            None \<Rightarrow> ''Error: '' @ e
          | Some v \<Rightarrow> parsed_message P e v)"
  using assms by (rule handleError_parse)

lemma parse_bad_query:
  "JSON_parse P ''{\"graphqlErrors\":[{\"message\":\"bad query\"}]}''
     = Some (JObj [(''graphqlErrors'', JArr [JObj [(''message'', JStr ''bad query'')]])])"
  by (simp add: JSON_parse_def is_ws_def and_then_def)

lemma parse_no_errors:
  "JSON_parse P ''{\"graphqlErrors\":[]}'' = Some (JObj [(''graphqlErrors'', JArr [])])"
  by (simp add: JSON_parse_def is_ws_def and_then_def)

lemma parse_null: "JSON_parse P ''null'' = Some JNull"
  by (simp add: JSON_parse_def is_ws_def is_digit_def)

lemma parse_empty_message:
  "JSON_parse P ''{\"graphqlErrors\":[{\"message\":\"\"}]}''
     = Some (JObj [(''graphqlErrors'', JArr [JObj [(''message'', JStr [])]])])"
  by (simp add: JSON_parse_def is_ws_def and_then_def)

lemma parse_object_message:
  "JSON_parse P ''{\"graphqlErrors\":[{\"message\":{\"toString\":\"x\"}}]}''
     = Some (JObj [(''graphqlErrors'',
               JArr [JObj [(''message'', JObj [(''toString'', JStr ''x'')])]])])"
  by (simp add: JSON_parse_def is_ws_def and_then_def)

lemma parse_no_length:
  "JSON_parse P ''{\"graphqlErrors\":{\"0\":{\"message\":\"m\"}}}''
     = Some (JObj [(''graphqlErrors'', JObj [(''0'', JObj [(''message'', JStr ''m'')])])])"
  by (simp add: JSON_parse_def is_ws_def and_then_def)

theorem handleError_parsed_witness:
  "fst (handleError no_numbers (JObj [(''error'', JStr ''null'')]) quiet) = Inr ''Error: null''
   \<and> fst (handleError no_numbers
        (JObj [(''error'', JStr ''{\"graphqlErrors\":[{\"message\":\"bad query\"}]}'')]) quiet)
      = Inr ''Anilist error: bad query''
   \<and> fst (handleError no_numbers (JObj [(''error'', JStr ''{\"graphqlErrors\":[]}'')]) quiet)
      = Inr ''Anilist error''
   \<and> fst (handleError no_numbers
        (JObj [(''error'', JStr ''{\"graphqlErrors\":{\"0\":{\"message\":\"m\"}}}'')]) quiet)
      = Inr ''Anilist error''
   \<and> fst (handleError no_numbers
        (JObj [(''error'', JStr ''{\"graphqlErrors\":[{\"message\":{\"toString\":\"x\"}}]}'')])
        quiet)
      = Inr ''Error: {\"graphqlErrors\":[{\"message\":{\"toString\":\"x\"}}]}''"
  using
    handleError_parsed
      [of "JObj [(''error'', JStr ''null'')]" "''null''" no_numbers quiet]
    handleError_parsed
      [of "JObj [(''error'', JStr ''{\"graphqlErrors\":[{\"message\":\"bad query\"}]}'')]"
          "''{\"graphqlErrors\":[{\"message\":\"bad query\"}]}''" no_numbers quiet]
    handleError_parsed
      [of "JObj [(''error'', JStr ''{\"graphqlErrors\":[]}'')]"
          "''{\"graphqlErrors\":[]}''" no_numbers quiet]
    handleError_parsed
      [of "JObj [(''error'', JStr ''{\"graphqlErrors\":{\"0\":{\"message\":\"m\"}}}'')]"
          "''{\"graphqlErrors\":{\"0\":{\"message\":\"m\"}}}''" no_numbers quiet]
    handleError_parsed
      [of "JObj [(''error'', JStr ''{\"graphqlErrors\":[{\"message\":{\"toString\":\"x\"}}]}'')]"
          "''{\"graphqlErrors\":[{\"message\":{\"toString\":\"x\"}}]}''" no_numbers quiet]
  by (simp add: opt_member_def parsed_message_def parse_bad_query parse_no_errors parse_null
      parse_no_length parse_object_message)

text \<open>
  The claim as written fails when the first entry of the list has an empty message: the
  string parses, the list is not empty, and the result is \<open>Anilist error\<close>, not
  \<open>Anilist error: \<close> followed by the message.
\<close>

theorem handleError_empty_message:
  "JSON_parse no_numbers ''{\"graphqlErrors\":[{\"message\":\"\"}]}''
     = Some (JObj [(''graphqlErrors'', JArr [JObj [(''message'', JStr [])]])])
   \<and> fst (handleError no_numbers
        (JObj [(''error'', JStr ''{\"graphqlErrors\":[{\"message\":\"\"}]}'')]) quiet)
      = Inr ''Anilist error''
   \<and> fst (handleError no_numbers
        (JObj [(''error'', JStr ''{\"graphqlErrors\":[{\"message\":\"\"}]}'')]) quiet)
      \<noteq> Inr (''Anilist error: '' @ [])"
  by (simp add: parse_empty_message handleError_def opt_member_def member_def Let_def
      console_log_def)

section \<open>The mutation wrapper\<close>

lemma config_onError_default:
  "m_options sm ''onError'' = None \<Longrightarrow>
     run_onError (mutation_config P axios baseUrl sm) e w = default_onError P e w"
  by (simp add: mutation_config_def run_onError_def map_add_def)

lemma config_mutationFn_default:
  "m_options sm ''mutationFn'' = None \<Longrightarrow>
     mutation_config P axios baseUrl sm ''mutationFn''
       = Some (MutationFn (default_mutationFn P axios baseUrl sm))"
  by (simp add: mutation_config_def map_add_def)

lemma default_onError_no_data:
  "opt_member (request e) ''data'' = JUndefined \<Longrightarrow>
     default_onError P e w = (None, toast_error ''Unknown error'' w)"
  by (simp add: default_onError_def handleError_def opt_member_def)

lemma config_onError_caller:
  "m_options sm ''onError'' = Some (OnErrorFn h) \<Longrightarrow>
     run_onError (mutation_config P axios baseUrl sm) e w = h e w"
  by (simp add: mutation_config_def run_onError_def)

lemma config_hooks:
  "run_hook (mutation_config P axios baseUrl sm) name w = run_hook (m_options sm) name w"
  by (simp add: run_hook_def mutation_config_def map_add_def split: option.splits)

text \<open>
  Claim C7. The caller's options are spread after the defaults: a caller's \<open>onError\<close> is
  the \<open>onError\<close> of the merged configuration, and every option the caller supplies is
  passed through as it is. When a mutation made by the wrapper fails, its error callback
  is the caller's and no other: with a caller's callback that returns, the world after
  the mutation is the world that callback left (and then the caller's \<open>onSettled\<close>), with
  no notification from the default callback in it.
\<close>

theorem caller_onError_replaces:
  assumes "m_options sm ''onError'' = Some (OnErrorFn h)"
  shows "mutation_config P axios baseUrl sm ''onError'' = Some (OnErrorFn h)
     \<and> (\<forall>k v. m_options sm k = Some v \<longrightarrow> mutation_config P axios baseUrl sm k = Some v)
     \<and> run_onError (mutation_config P axios baseUrl sm) e w = h e w
     \<and> (m_options sm ''mutationFn'' = None
        \<and> axios \<lparr>url = baseUrl @ m_endpoint sm, cfg_method = m_method sm,
                  cfg_data = variables, cfg_params = JUndefined\<rparr> = Inl e
        \<and> h e (run_hook (m_options sm) ''onMutate'' w) = (None, w')
        \<longrightarrow> useServerMutation P axios baseUrl sm variables w
              = (Some (Rejected e), run_hook (m_options sm) ''onSettled'' w'))"
proof (intro conjI allI impI)
  show "mutation_config P axios baseUrl sm ''onError'' = Some (OnErrorFn h)"
    using assms by (simp add: mutation_config_def)
next
  fix k v
  assume "m_options sm k = Some v"
  then show "mutation_config P axios baseUrl sm k = Some v"
    by (simp add: mutation_config_def)
next
  show "run_onError (mutation_config P axios baseUrl sm) e w = h e w"
    using assms by (rule config_onError_caller)
next
  assume h: "m_options sm ''mutationFn'' = None
        \<and> axios \<lparr>url = baseUrl @ m_endpoint sm, cfg_method = m_method sm,
                  cfg_data = variables, cfg_params = JUndefined\<rparr> = Inl e
        \<and> h e (run_hook (m_options sm) ''onMutate'' w) = (None, w')"
  then have run: "default_mutationFn P axios baseUrl sm variables w0 = (Inl e, w0)" for w0
    by (simp add: default_mutationFn_def buildQuery_def)
  show "useServerMutation P axios baseUrl sm variables w
              = (Some (Rejected e), run_hook (m_options sm) ''onSettled'' w')"
    using h run
    by (simp add: useServerMutation_def useMutation_def config_mutationFn_default
        config_onError_caller[OF assms] config_hooks)
qed

theorem caller_onError_replaces_witness:
  "useServerMutation no_numbers
     (rejects \<lparr>request = JUndefined,
               response = Some \<lparr>resp_data = JObj [(''error'', JStr ''Too many requests'')]\<rparr>\<rparr>)
     ''http://localhost:43211''
     \<lparr>m_endpoint = ''/api/v1/entry'', m_method = POST,
      m_options = [''onError'' \<mapsto> OnErrorFn announce, ''retry'' \<mapsto> Plain (JBool False)]\<rparr>
     JNull quiet
   = (Some (Rejected \<lparr>request = JUndefined,
               response = Some \<lparr>resp_data = JObj [(''error'', JStr ''Too many requests'')]\<rparr>\<rparr>),
      \<lparr>toasts = [''caller ran''], console = []\<rparr>)"
  using caller_onError_replaces
    [of "\<lparr>m_endpoint = ''/api/v1/entry'', m_method = POST,
      m_options = [''onError'' \<mapsto> OnErrorFn announce, ''retry'' \<mapsto> Plain (JBool False)]\<rparr>"
      announce no_numbers
      "rejects \<lparr>request = JUndefined,
               response = Some \<lparr>resp_data = JObj [(''error'', JStr ''Too many requests'')]\<rparr>\<rparr>"
      "''http://localhost:43211''"
      "\<lparr>request = JUndefined,
               response = Some \<lparr>resp_data = JObj [(''error'', JStr ''Too many requests'')]\<rparr>\<rparr>"
      quiet JNull "\<lparr>toasts = [''caller ran''], console = []\<rparr>"]
  by (simp add: rejects_def announce_def run_hook_def toast_error_def quiet_def)

text \<open>
  Claim C6 says that a mutation with no \<open>onError\<close> of its own, failing with the response
  body \<open>{error: "Too many requests"}\<close>, notifies once with the rate-limit message. The
  default callback does not read the response: it classifies \<^verbatim>\<open>error.request?.data\<close>.
  Whenever the request object has no \<open>data\<close> property (an XMLHttpRequest has none), the
  one notification is \<open>Unknown error\<close>, whatever the response body says.
\<close>

theorem useServerMutation_reads_request:
  assumes "opt_member (request e) ''data'' = JUndefined" "m_options sm = Map.empty"
  shows "useServerMutation P (rejects e) baseUrl sm variables w
           = (Some (Rejected e), toast_error ''Unknown error'' w)"
proof -
  have run: "default_mutationFn P (rejects e) baseUrl sm variables w = (Inl e, w)"
    by (simp add: default_mutationFn_def buildQuery_def rejects_def)
  have hooks: "run_hook (mutation_config P (rejects e) baseUrl sm) name w' = w'" for name w'
    using assms(2) by (simp add: run_hook_def mutation_config_def)
  show ?thesis
    using assms run hooks
    by (simp add: useServerMutation_def useMutation_def config_mutationFn_default
        config_onError_default default_onError_no_data)
qed

theorem useServerMutation_reads_request_witness:
  "toasts (snd (useServerMutation no_numbers
     (rejects \<lparr>request = JObj [(''responseURL'', JStr ''http://localhost:43211/api/v1/entry'')],
               response = Some \<lparr>resp_data = JObj [(''error'', JStr ''Too many requests'')]\<rparr>\<rparr>)
     ''http://localhost:43211''
     \<lparr>m_endpoint = ''/api/v1/entry'', m_method = POST, m_options = Map.empty\<rparr>
     JNull quiet)) = [''Unknown error'']
   \<and> fst (handleError no_numbers (JObj [(''error'', JStr ''Too many requests'')]) quiet)
      = Inr ''Anilist: Too many requests, please wait a moment and try again''"
  using useServerMutation_reads_request
    [of "\<lparr>request = JObj [(''responseURL'', JStr ''http://localhost:43211/api/v1/entry'')],
               response = Some \<lparr>resp_data = JObj [(''error'', JStr ''Too many requests'')]\<rparr>\<rparr>"
        "\<lparr>m_endpoint = ''/api/v1/entry'', m_method = POST, m_options = Map.empty\<rparr>"
        no_numbers "''http://localhost:43211''" JNull quiet]
  by (simp add: opt_member_def toast_error_def quiet_def handleError_def)

section \<open>The query wrapper\<close>














end
